theory Spec2Isabelle
  imports Main
begin

section \<open>Python values, exceptions and name lookup\<close>

text \<open>
  The two modules of the repository, \<^verbatim>\<open>scd_merge.py\<close> and \<^verbatim>\<open>add_attributes.py\<close>,
  are embedded with errors as values: a raised exception is \<open>Inl\<close> of its class name and
  argument, a returned value is \<open>Inr\<close>.

  A data frame is its column header and its rows, as the docstring of \<^verbatim>\<open>scd_merge.py\<close>
  prints them (the leading index column is the position of the row in the list).
\<close>

datatype cell = Null | IntC int | StrC string | DateC int int int

record dataframe =
  df_columns :: "string list"
  df_rows :: "cell list list"

datatype pyval =
    NoneV
  | IntV int
  | StrV string
  | DictV "(string \<times> pyval) list"
  | DataFrameV dataframe
  | FunctionV string
  | BuiltinV string

datatype error = Raised (exc_class: string) (exc_arg: string)

type_synonym namespace = "string \<rightharpoonup> pyval"

text \<open>
  A name that is not local to a function body is looked up in the module's globals and
  then in the builtins; when both lookups miss, Python raises \<^verbatim>\<open>NameError\<close>.
\<close>

definition load_global :: "namespace \<Rightarrow> namespace \<Rightarrow> string \<Rightarrow> error + pyval" where
  "load_global globals builtins n =
     (case globals n of
        Some v \<Rightarrow> Inr v
      | None \<Rightarrow>
          (case builtins n of
             Some v \<Rightarrow> Inr v
           | None \<Rightarrow> Inl (Raised ''NameError'' n)))"

definition raises :: "string \<Rightarrow> error + 'a \<Rightarrow> bool" where
  "raises cls r = (case r of Inl e \<Rightarrow> exc_class e = cls | Inr v \<Rightarrow> False)"

definition returns_dataframe :: "error + pyval \<Rightarrow> bool" where
  "returns_dataframe r =
     (case r of
        Inr (DataFrameV df) \<Rightarrow> True
      | _ \<Rightarrow> False)"

text \<open>The names of Python 3's builtins: its built-in functions, constants and exceptions.\<close>

definition builtin_names :: "string list" where
  "builtin_names =
     [''abs'', ''aiter'', ''all'', ''anext'', ''any'', ''ascii'', ''bin'', ''bool'',
      ''breakpoint'', ''bytearray'', ''bytes'', ''callable'', ''chr'', ''classmethod'',
      ''compile'', ''complex'', ''delattr'', ''dict'', ''dir'', ''divmod'', ''enumerate'',
      ''eval'', ''exec'', ''filter'', ''float'', ''format'', ''frozenset'', ''getattr'',
      ''globals'', ''hasattr'', ''hash'', ''help'', ''hex'', ''id'', ''input'', ''int'',
      ''isinstance'', ''issubclass'', ''iter'', ''len'', ''list'', ''locals'', ''map'',
      ''max'', ''memoryview'', ''min'', ''next'', ''object'', ''oct'', ''open'', ''ord'',
      ''pow'', ''print'', ''property'', ''range'', ''repr'', ''reversed'', ''round'',
      ''set'', ''setattr'', ''slice'', ''sorted'', ''staticmethod'', ''str'', ''sum'',
      ''super'', ''tuple'', ''type'', ''vars'', ''zip'', ''__import__'',
      ''True'', ''False'', ''None'', ''NotImplemented'', ''Ellipsis'', ''__debug__'',
      ''BaseException'', ''BaseExceptionGroup'', ''Exception'', ''ExceptionGroup'',
      ''GeneratorExit'', ''KeyboardInterrupt'', ''SystemExit'', ''ArithmeticError'',
      ''AssertionError'', ''AttributeError'', ''BlockingIOError'', ''BrokenPipeError'',
      ''BufferError'', ''BytesWarning'', ''ChildProcessError'', ''ConnectionAbortedError'',
      ''ConnectionError'', ''ConnectionRefusedError'', ''ConnectionResetError'',
      ''DeprecationWarning'', ''EOFError'', ''EncodingWarning'', ''EnvironmentError'',
      ''FileExistsError'', ''FileNotFoundError'', ''FloatingPointError'', ''FutureWarning'',
      ''IOError'', ''ImportError'', ''ImportWarning'', ''IndentationError'', ''IndexError'',
      ''InterruptedError'', ''IsADirectoryError'', ''KeyError'', ''LookupError'',
      ''MemoryError'', ''ModuleNotFoundError'', ''NameError'', ''NotADirectoryError'',
      ''NotImplementedError'', ''OSError'', ''OverflowError'', ''PendingDeprecationWarning'',
      ''PermissionError'', ''ProcessLookupError'', ''RecursionError'', ''ReferenceError'',
      ''ResourceWarning'', ''RuntimeError'', ''RuntimeWarning'', ''StopAsyncIteration'',
      ''StopIteration'', ''SyntaxError'', ''SyntaxWarning'', ''SystemError'', ''TabError'',
      ''TimeoutError'', ''TypeError'', ''UnboundLocalError'', ''UnicodeDecodeError'',
      ''UnicodeEncodeError'', ''UnicodeError'', ''UnicodeTranslateError'', ''UnicodeWarning'',
      ''UserWarning'', ''ValueError'', ''Warning'', ''ZeroDivisionError'']"

definition python_builtins :: namespace where
  "python_builtins = map_of (map (\<lambda>n. (n, BuiltinV n)) builtin_names)"


section \<open>The merge function of \<^verbatim>\<open>scd_merge.py\<close>\<close>

text \<open>
  \<^verbatim>\<open>
  def scd_merge(df_source, df_target, table_params: dict):

      return df_merged
  \<close>
  The body is the single statement \<^verbatim>\<open>return df_merged\<close>. The name \<^verbatim>\<open>df_merged\<close> is not
  a parameter and is assigned nowhere in the body, so it is a global load. The module
  itself binds one name, \<^verbatim>\<open>scd_merge\<close>.
\<close>

definition scd_merge ::
  "namespace \<Rightarrow> namespace \<Rightarrow> pyval \<Rightarrow> pyval \<Rightarrow> pyval \<Rightarrow> error + pyval" where
  "scd_merge globals builtins df_source df_target table_params =
     load_global globals builtins ''df_merged''"

definition scd_merge_globals :: namespace where
  "scd_merge_globals = [''scd_merge'' \<mapsto> FunctionV ''scd_merge'']"


subsection \<open>The tables of the docstring\<close>

text \<open>
  Every example of the docstring merges the same source batch; the merge date of the
  type 2, 3 and 6 examples is 2022-01-31.
\<close>

definition docs_df_source :: dataframe where
  "docs_df_source =
     \<lparr> df_columns = [''customer'', ''credit_score''],
       df_rows = [[StrC ''C00000001'', IntC 730],
                  [StrC ''C00000002'', IntC 480]] \<rparr>"

definition type0_df_target :: dataframe where
  "type0_df_target =
     \<lparr> df_columns = [''customer'', ''original_credit_score''],
       df_rows = [[StrC ''C00000001'', IntC 630],
                  [StrC ''C00000002'', IntC 520]] \<rparr>"

definition type0_df_merged :: dataframe where
  "type0_df_merged =
     \<lparr> df_columns = [''customer'', ''original_credit_score''],
       df_rows = [[StrC ''C00000001'', IntC 630],
                  [StrC ''C00000002'', IntC 520]] \<rparr>"

definition type1_df_target :: dataframe where
  "type1_df_target =
     \<lparr> df_columns = [''customer'', ''current_credit_score''],
       df_rows = [[StrC ''C00000001'', IntC 630],
                  [StrC ''C00000002'', IntC 520]] \<rparr>"

definition type1_df_merged :: dataframe where
  "type1_df_merged =
     \<lparr> df_columns = [''customer'', ''current_credit_score''],
       df_rows = [[StrC ''C00000001'', IntC 730],
                  [StrC ''C00000002'', IntC 480]] \<rparr>"


definition type3_df_target :: dataframe where
  "type3_df_target =
     \<lparr> df_columns = [''customer'', ''credit_score'', ''credit_score_alternate''],
       df_rows = [[StrC ''C00000001'', IntC 630, Null],
                  [StrC ''C00000002'', IntC 520, Null]] \<rparr>"

definition type3_df_merged :: dataframe where
  "type3_df_merged =
     \<lparr> df_columns = [''customer'', ''credit_score'', ''credit_score_alternate''],
       df_rows = [[StrC ''C00000001'', IntC 730, IntC 630],
                  [StrC ''C00000002'', IntC 480, IntC 520]] \<rparr>"

definition type6_df_target :: dataframe where
  "type6_df_target =
     \<lparr> df_columns = [''customer'', ''effective_from'', ''effective_to'', ''is_current'',
                     ''credit_score_current'', ''credit_score_historical''],
       df_rows = [[StrC ''C00000001'', DateC 2022 1 1, DateC 9999 12 31, IntC 1,
                   IntC 630, IntC 630],
                  [StrC ''C00000002'', DateC 2022 1 1, DateC 9999 12 31, IntC 1,
                   IntC 520, IntC 520]] \<rparr>"

definition type6_df_merged :: dataframe where
  "type6_df_merged =
     \<lparr> df_columns = [''customer'', ''effective_from'', ''effective_to'', ''is_current'',
                     ''credit_score_current'', ''credit_score_historical''],
       df_rows = [[StrC ''C00000001'', DateC 2022 1 1, DateC 2022 1 30, IntC 0,
                   IntC 730, IntC 630],
                  [StrC ''C00000001'', DateC 2022 1 31, DateC 9999 12 31, IntC 1,
                   IntC 730, IntC 730],
                  [StrC ''C00000002'', DateC 2022 1 1, DateC 9999 12 31, IntC 0,
                   IntC 480, IntC 520],
                  [StrC ''C00000002'', DateC 2022 1 1, DateC 9999 12 31, IntC 1,
                   IntC 480, IntC 480]] \<rparr>"


subsection \<open>Reading a table\<close>

text \<open>
  The cell of a row under a column name, the rows of a durable key, the keys of a table
  in order of first appearance, and the value of a column at a key that has exactly one
  row (the shape of the type 0, 1 and 3 tables).
\<close>

definition cell_of :: "dataframe \<Rightarrow> string \<Rightarrow> cell list \<Rightarrow> cell option" where
  "cell_of df c r = map_of (zip (df_columns df) r) c"

definition rows_of_key :: "dataframe \<Rightarrow> string \<Rightarrow> cell \<Rightarrow> cell list list" where
  "rows_of_key df kc k = filter (\<lambda>r. cell_of df kc r = Some k) (df_rows df)"

definition keys_of :: "dataframe \<Rightarrow> string \<Rightarrow> cell list" where
  "keys_of df kc = remdups (List.map_filter (cell_of df kc) (df_rows df))"

definition keys_in_both :: "dataframe \<Rightarrow> dataframe \<Rightarrow> string \<Rightarrow> cell list" where
  "keys_in_both src tgt kc = filter (\<lambda>k. k \<in> set (keys_of tgt kc)) (keys_of src kc)"

definition column_of_key :: "dataframe \<Rightarrow> string \<Rightarrow> cell \<Rightarrow> string \<Rightarrow> cell option list" where
  "column_of_key df kc k c = map (cell_of df c) (rows_of_key df kc k)"

definition value_of :: "dataframe \<Rightarrow> string \<Rightarrow> cell \<Rightarrow> string \<Rightarrow> cell option" where
  "value_of df kc k c =
     (case rows_of_key df kc k of
        [r] \<Rightarrow> cell_of df c r
      | _ \<Rightarrow> None)"

definition has_duplicate_key :: "dataframe \<Rightarrow> string \<Rightarrow> bool" where
  "has_duplicate_key df kc = (\<not> distinct (List.map_filter (cell_of df kc) (df_rows df)))"


subsection \<open>The properties the specification states of a merged table\<close>

text \<open>
  Type 0: at every key of both the source and the target, the merged column holds the
  target's value.
\<close>

definition type0_retained ::
  "dataframe \<Rightarrow> dataframe \<Rightarrow> dataframe \<Rightarrow> string \<Rightarrow> string \<Rightarrow> bool" where
  "type0_retained src tgt merged kc c =
     list_all (\<lambda>k. value_of merged kc k c \<noteq> None \<and>
                    value_of merged kc k c = value_of tgt kc k c)
       (keys_in_both src tgt kc)"

text \<open>
  Type 1: at every key, the merged column holds the source's value when the source has
  the key, and the target's value otherwise.
\<close>

definition type1_overwritten ::
  "dataframe \<Rightarrow> dataframe \<Rightarrow> dataframe \<Rightarrow> string \<Rightarrow> string \<Rightarrow> string \<Rightarrow> bool" where
  "type1_overwritten src tgt merged kc src_c c =
     list_all (\<lambda>k. value_of merged kc k c \<noteq> None \<and>
                    value_of merged kc k c =
                      (if k \<in> set (keys_of src kc) then value_of src kc k src_c
                       else value_of tgt kc k c))
       (remdups (keys_of src kc @ keys_of tgt kc))"

text \<open>
  Type 3: a key is changed when the source's value differs from the target's primary
  value; at a changed key the merged primary holds the source's value, and the merged
  alternate holds the target's primary when the target's alternate is null, and the
  target's alternate otherwise.
\<close>

definition changed_keys :: "dataframe \<Rightarrow> dataframe \<Rightarrow> string \<Rightarrow> string \<Rightarrow> string \<Rightarrow> cell list" where
  "changed_keys src tgt kc src_c c =
     filter (\<lambda>k. value_of src kc k src_c \<noteq> value_of tgt kc k c) (keys_in_both src tgt kc)"

definition type3_shifted ::
  "dataframe \<Rightarrow> dataframe \<Rightarrow> dataframe \<Rightarrow> string \<Rightarrow> string \<Rightarrow> string \<Rightarrow> string \<Rightarrow> bool" where
  "type3_shifted src tgt merged kc src_c c alt =
     list_all (\<lambda>k. value_of merged kc k c \<noteq> None \<and>
                    value_of merged kc k c = value_of src kc k src_c \<and>
                    value_of merged kc k alt =
                      (if value_of tgt kc k alt = Some Null then value_of tgt kc k c
                       else value_of tgt kc k alt))
       (changed_keys src tgt kc src_c c)"


definition is_current :: "dataframe \<Rightarrow> cell list \<Rightarrow> bool" where
  "is_current df r = (cell_of df ''is_current'' r = Some (IntC 1))"

definition current_rows :: "dataframe \<Rightarrow> string \<Rightarrow> cell \<Rightarrow> cell list list" where
  "current_rows df kc k = filter (is_current df) (rows_of_key df kc k)"


text \<open>
  Type 6: every row of a key holds, in the shadow column, the value of the key's single
  current row.
\<close>

definition type6_shadow_consistent :: "dataframe \<Rightarrow> string \<Rightarrow> string \<Rightarrow> bool" where
  "type6_shadow_consistent df kc cur =
     list_all (\<lambda>k.
        (case current_rows df kc k of
           [r] \<Rightarrow> cell_of df cur r \<noteq> None \<and>
                  list_all (\<lambda>r'. cell_of df cur r' = cell_of df cur r) (rows_of_key df kc k)
         | _ \<Rightarrow> False))
       (keys_of df kc)"


text \<open>A source batch with two rows for the durable key C00000001.\<close>

definition dup_df_source :: dataframe where
  "dup_df_source =
     \<lparr> df_columns = [''customer'', ''credit_score''],
       df_rows = [[StrC ''C00000001'', IntC 730],
                  [StrC ''C00000001'', IntC 480]] \<rparr>"


section \<open>The decorator of \<^verbatim>\<open>add_attributes.py\<close>\<close>

text \<open>
  \<^verbatim>\<open>
  def add_attr(cls):
      def decorator(func):
          @wraps(func)
          def _wrapper(*args, **kwargs):
              f = func(*args, **kwargs)
              return f

          setattr(cls, func.__name__, _wrapper)
          return func

      return decorator
  \<close>
  A function object is its \<^verbatim>\<open>__name__\<close> and what a call of it does: \<open>'a\<close> is the
  positional and keyword arguments of the call, \<open>'r\<close> its whole outcome (the value
  returned or the exception raised, and any effect). \<^verbatim>\<open>functools.wraps\<close> gives the
  wrapper the name of the wrapped function.

  The object \<^verbatim>\<open>cls\<close> is its attribute namespace together with what its type does on
  an assignment: \<open>obj_refuses cls n\<close> is the exception with which the assignment of the
  attribute \<open>n\<close> is refused, if it is. \<^verbatim>\<open>setattr\<close> raises that exception, and binds the
  name otherwise. The decorator returns \<^verbatim>\<open>func\<close> after the assignment; the model returns
  with it the object \<^verbatim>\<open>cls\<close> after the call.
\<close>

record ('a, 'r) pyfunc =
  fn_name :: string
  fn_call :: "'a \<Rightarrow> 'r"

record ('a, 'r) pyobject =
  obj_attrs :: "string \<rightharpoonup> ('a, 'r) pyfunc"
  obj_refuses :: "string \<Rightarrow> error option"

definition wraps :: "('a, 'r) pyfunc \<Rightarrow> ('a, 'r) pyfunc \<Rightarrow> ('a, 'r) pyfunc" where
  "wraps wrapped wrapper = wrapper \<lparr> fn_name := fn_name wrapped \<rparr>"

definition wrapper :: "('a, 'r) pyfunc \<Rightarrow> ('a, 'r) pyfunc" where
  "wrapper func =
     \<lparr> fn_name = ''_wrapper'',
       fn_call = (\<lambda>args. let f = fn_call func args in f) \<rparr>"

definition setattr ::
  "('a, 'r) pyobject \<Rightarrow> string \<Rightarrow> ('a, 'r) pyfunc \<Rightarrow> error + ('a, 'r) pyobject" where
  "setattr obj name v =
     (case obj_refuses obj name of
        Some e \<Rightarrow> Inl e
      | None \<Rightarrow> Inr (obj \<lparr> obj_attrs := (obj_attrs obj)(name \<mapsto> v) \<rparr>))"

definition decorator ::
  "('a, 'r) pyobject \<Rightarrow> ('a, 'r) pyfunc \<Rightarrow> error + (('a, 'r) pyfunc \<times> ('a, 'r) pyobject)" where
  "decorator cls func =
     (let w = wraps func (wrapper func) in
      case setattr cls (fn_name func) w of
        Inl e \<Rightarrow> Inl e
      | Inr cls' \<Rightarrow> Inr (func, cls'))"

definition add_attr ::
  "('a, 'r) pyobject \<Rightarrow> ('a, 'r) pyfunc \<Rightarrow> error + (('a, 'r) pyfunc \<times> ('a, 'r) pyobject)" where
  "add_attr cls = decorator cls"

text \<open>
  Three objects. The function \<^verbatim>\<open>add_column3\<close> of the module takes no argument, and its
  body \<^verbatim>\<open>self.withColumn("col3", lit(3))\<close> loads the name \<^verbatim>\<open>lit\<close>, which nothing binds.
  The function object \<^verbatim>\<open>custom\<close>, which the module passes as \<^verbatim>\<open>cls\<close>, accepts a
  function under every attribute name but the reserved ones of a function object. A
  built-in type such as \<^verbatim>\<open>int\<close> refuses every assignment with \<^verbatim>\<open>TypeError\<close>; its own
  attributes play no part and are left out.
\<close>

definition add_column3 :: "(pyval list, error + pyval) pyfunc" where
  "add_column3 =
     \<lparr> fn_name = ''add_column3'',
       fn_call = (\<lambda>args. if args = [] then Inl (Raised ''NameError'' ''lit'')
                         else Inl (Raised ''TypeError'' ''add_column3'')) \<rparr>"

definition custom_function :: "(pyval list, error + pyval) pyobject" where
  "custom_function =
     \<lparr> obj_attrs = Map.empty,
       obj_refuses = (\<lambda>n.
         if n \<in> set [''__name__'', ''__qualname__'', ''__code__'', ''__defaults__'',
                      ''__kwdefaults__'', ''__dict__'', ''__annotations__'', ''__class__'']
         then Some (Raised ''TypeError'' n)
         else if n \<in> set [''__closure__'', ''__globals__'', ''__builtins__'']
         then Some (Raised ''AttributeError'' n)
         else None) \<rparr>"

definition int_type :: "(pyval list, error + pyval) pyobject" where
  "int_type =
     \<lparr> obj_attrs = Map.empty,
       obj_refuses = (\<lambda>n. Some (Raised ''TypeError'' n)) \<rparr>"


section \<open>Loading the module \<^verbatim>\<open>add_attributes.py\<close>\<close>

text \<open>
  The module as a syntax tree. An import of the module runs its top-level statements in
  order; a function body is not run by its \<^verbatim>\<open>def\<close>.
\<close>

datatype expr =
    Name string
  | Attribute expr string
  | Call expr "expr list"
  | Starred expr
  | DoubleStarred expr
  | StrE string
  | NumE int
  | ListE "expr list"
  | Invert expr
  | BitAnd expr expr
  | Compare expr expr

datatype stmt =
    ImportFrom string "string list"
  | FunctionDef string "string list" "expr list" "stmt list"
  | Assign expr expr
  | Expr expr
  | Return expr

text \<open>
  \<open>FunctionDef name parameters decorators body\<close>. The two definitions of
  \<^verbatim>\<open>add_attr\<close> in the file are the same text.
\<close>

definition add_attr_def_stmt :: stmt where
  "add_attr_def_stmt =
     FunctionDef ''add_attr'' [''cls''] []
       [FunctionDef ''decorator'' [''func''] []
          [FunctionDef ''_wrapper'' [''args'', ''kwargs'']
             [Call (Name ''wraps'') [Name ''func'']]
             [Assign (Name ''f'')
                (Call (Name ''func'') [Starred (Name ''args''), DoubleStarred (Name ''kwargs'')]),
              Return (Name ''f'')],
           Expr (Call (Name ''setattr'')
             [Name ''cls'', Attribute (Name ''func'') ''__name__'', Name ''_wrapper'']),
           Return (Name ''func'')],
        Return (Name ''decorator'')]"

definition custom_def_stmt :: stmt where
  "custom_def_stmt =
     FunctionDef ''custom'' [''self''] []
       [FunctionDef ''add_column3'' []
          [Call (Name ''add_attr'') [Name ''custom'']]
          [Return (Call (Attribute (Name ''self'') ''withColumn'')
             [StrE ''col3'', Call (Name ''lit'') [NumE 3]])],
        FunctionDef ''add_column4'' []
          [Call (Name ''add_attr'') [Name ''custom'']]
          [Return (Call (Attribute (Name ''self'') ''withColumn'')
             [StrE ''col4'', Call (Name ''lit'') [NumE 4]])],
        Return (Name ''custom'')]"

definition dataframe_extension_def_stmt :: stmt where
  "dataframe_extension_def_stmt =
     FunctionDef ''dataframe_extension'' [''self''] []
       [FunctionDef ''drop_fusion_gdpp_events'' []
          [Call (Name ''add_attr'') [Name ''dataframe_extension'']]
          [Return
             (Call
                (Attribute
                   (Call (Attribute (Name ''self'') ''where'')
                      [Invert
                         (BitAnd
                            (Compare (Call (Name ''col'') [StrE ''test1'']) (StrE ''ABC''))
                            (Compare (Call (Name ''col'') [StrE ''test2'']) (StrE ''XYZ'')))])
                   ''where'')
                [Invert
                   (Call (Attribute (Call (Name ''col'') [StrE ''test1'']) ''isin'')
                      [ListE [StrE ''AAA'', StrE ''BBB'']])])],
        Return (Name ''dataframe_extension'')]"

definition add_attributes_module :: "stmt list" where
  "add_attributes_module =
     [ImportFrom ''pyspark.sql.dataframe'' [''DataFrame''],
      ImportFrom ''functools'' [''wraps''],
      add_attr_def_stmt,
      custom_def_stmt,
      Assign (Attribute (Name ''DataFrame'') ''custom'') (Call (Name ''property'') [Name ''custom'']),
      Expr (Call (Attribute (Attribute (Name ''df'') ''custom'') ''add_column3'') []),
      add_attr_def_stmt,
      dataframe_extension_def_stmt,
      Assign (Attribute (Name ''DataFrame'') ''dataframe_extension'')
        (Call (Name ''property'') [Name ''dataframe_extension''])]"

text \<open>
  Evaluating an expression loads its names from left to right, the callee of a call
  before its arguments. The model follows the names only: \<open>unbound b e\<close> is the first
  name of \<open>e\<close>, in the order of evaluation, that \<open>b\<close> does not bind, if there is one.
\<close>

fun first_some :: "'a option list \<Rightarrow> 'a option" where
  "first_some [] = None"
| "first_some (None # xs) = first_some xs"
| "first_some (Some x # xs) = Some x"

fun unbound :: "(string \<Rightarrow> bool) \<Rightarrow> expr \<Rightarrow> string option" where
  "unbound b (Name n) = (if b n then None else Some n)"
| "unbound b (Attribute e a) = unbound b e"
| "unbound b (Call f args) = first_some (unbound b f # map (unbound b) args)"
| "unbound b (Starred e) = unbound b e"
| "unbound b (DoubleStarred e) = unbound b e"
| "unbound b (StrE s) = None"
| "unbound b (NumE i) = None"
| "unbound b (ListE es) = first_some (map (unbound b) es)"
| "unbound b (Invert e) = unbound b e"
| "unbound b (BitAnd l r) = first_some [unbound b l, unbound b r]"
| "unbound b (Compare l r) = first_some [unbound b l, unbound b r]"

text \<open>The names an expression loads, and the names loaded anywhere under a statement.\<close>

fun names_of :: "expr \<Rightarrow> string list" where
  "names_of (Name n) = [n]"
| "names_of (Attribute e a) = names_of e"
| "names_of (Call f args) = names_of f @ concat (map names_of args)"
| "names_of (Starred e) = names_of e"
| "names_of (DoubleStarred e) = names_of e"
| "names_of (StrE s) = []"
| "names_of (NumE i) = []"
| "names_of (ListE es) = concat (map names_of es)"
| "names_of (Invert e) = names_of e"
| "names_of (BitAnd l r) = names_of l @ names_of r"
| "names_of (Compare l r) = names_of l @ names_of r"

fun loaded_names :: "stmt \<Rightarrow> string list" where
  "loaded_names (ImportFrom m ns) = []"
| "loaded_names (FunctionDef f ps ds body) =
     concat (map names_of ds) @ concat (map loaded_names body)"
| "loaded_names (Assign t v) = names_of v @ (case t of Name n \<Rightarrow> [] | _ \<Rightarrow> names_of t)"
| "loaded_names (Expr e) = names_of e"
| "loaded_names (Return e) = names_of e"

text \<open>The names a statement binds in the scope it runs in.\<close>

fun bound_names :: "stmt \<Rightarrow> string list" where
  "bound_names (ImportFrom m ns) = ns"
| "bound_names (FunctionDef f ps ds body) = [f]"
| "bound_names (Assign t v) = (case t of Name n \<Rightarrow> [n] | _ \<Rightarrow> [])"
| "bound_names (Expr e) = []"
| "bound_names (Return e) = []"

text \<open>
  The environment of an import is the modules that can be imported, each with the names
  it exports. A top-level statement runs in the module's globals (the names bound so
  far), with the builtins behind them. An import of a missing module or name raises; an
  expression raises \<^verbatim>\<open>NameError\<close> at its first unbound name; an assignment evaluates its
  right-hand side before the object of its target.
\<close>

type_synonym modules = "string \<rightharpoonup> string list"

definition visible :: "string list \<Rightarrow> string \<Rightarrow> bool" where
  "visible globals n = (n \<in> set globals \<or> python_builtins n \<noteq> None)"

definition eval_names :: "string list \<Rightarrow> expr list \<Rightarrow> error + string list" where
  "eval_names globals es =
     (case first_some (map (unbound (visible globals)) es) of
        Some n \<Rightarrow> Inl (Raised ''NameError'' n)
      | None \<Rightarrow> Inr globals)"

fun exec_stmt :: "modules \<Rightarrow> string list \<Rightarrow> stmt \<Rightarrow> error + string list" where
  "exec_stmt mods globals (ImportFrom m ns) =
     (case mods m of
        None \<Rightarrow> Inl (Raised ''ModuleNotFoundError'' m)
      | Some exported \<Rightarrow>
          (case find (\<lambda>n. n \<notin> set exported) ns of
             Some n \<Rightarrow> Inl (Raised ''ImportError'' n)
           | None \<Rightarrow> Inr (globals @ ns)))"
| "exec_stmt mods globals (FunctionDef f ps ds body) =
     (case eval_names globals ds of
        Inl e \<Rightarrow> Inl e
      | Inr g \<Rightarrow> Inr (g @ [f]))"
| "exec_stmt mods globals (Assign t v) =
     (case t of
        Name n \<Rightarrow>
          (case eval_names globals [v] of
             Inl e \<Rightarrow> Inl e
           | Inr g \<Rightarrow> Inr (g @ [n]))
      | _ \<Rightarrow> eval_names globals [v, t])"
| "exec_stmt mods globals (Expr e) = eval_names globals [e]"
| "exec_stmt mods globals (Return e) = Inl (Raised ''SyntaxError'' ''return'')"

fun exec_module :: "modules \<Rightarrow> string list \<Rightarrow> stmt list \<Rightarrow> error + string list" where
  "exec_module mods globals [] = Inr globals"
| "exec_module mods globals (s # ss) =
     (case exec_stmt mods globals s of
        Inl e \<Rightarrow> Inl e
      | Inr g \<Rightarrow> exec_module mods g ss)"

definition import_add_attributes :: "modules \<Rightarrow> error + string list" where
  "import_add_attributes mods = exec_module mods [] add_attributes_module"

text \<open>An environment with pyspark: the two modules the file imports from.\<close>

definition pyspark_modules :: modules where
  "pyspark_modules =
     [''pyspark.sql.dataframe'' \<mapsto> [''DataFrame''],
      ''functools'' \<mapsto> [''wraps'', ''partial'', ''reduce'', ''lru_cache'']]"


section \<open>Theorems\<close>

lemma load_global_unbound:
  "globals n = None \<Longrightarrow> builtins n = None \<Longrightarrow>
   load_global globals builtins n = Inl (Raised ''NameError'' n)"
  by (simp add: load_global_def)

lemma df_merged_not_builtin: "python_builtins ''df_merged'' = None"
  by code_simp

lemma df_merged_not_global: "scd_merge_globals ''df_merged'' = None"
  by (simp add: scd_merge_globals_def)

lemma scd_merge_module_raises:
  "scd_merge scd_merge_globals python_builtins df_source df_target table_params =
   Inl (Raised ''NameError'' ''df_merged'')"
  unfolding scd_merge_def
  using df_merged_not_global df_merged_not_builtin
  by (simp add: load_global_unbound)

text \<open>
  C1 (the code does not do this). The claim: for every source batch, target snapshot and
  policy mapping, \<^verbatim>\<open>scd_merge(df_source, df_target, table_params)\<close> completes and returns
  a tabular merged snapshot. In the module as written the call raises \<^verbatim>\<open>NameError\<close> for
  every triple of arguments, here at the arguments of the documented type 1 example,
  whose documented result is never returned.
\<close>

theorem scd_merge_always_raises:
  "scd_merge scd_merge_globals python_builtins df_source df_target table_params
     = Inl (Raised ''NameError'' ''df_merged'')
   \<and> \<not> returns_dataframe
        (scd_merge scd_merge_globals python_builtins
           (DataFrameV docs_df_source) (DataFrameV type1_df_target) (DictV []))"
  by (simp add: scd_merge_module_raises returns_dataframe_def)

lemma scd_merge_never_duplicate_key:
  "\<not> raises ''DuplicateSourceKey'' (scd_merge globals builtins df_source df_target table_params)"
  by (simp add: scd_merge_def load_global_def raises_def split: option.splits)


text \<open>
  C4 (the code does not do this). The claim: at every durable key of both the source and
  the target, a type 0 column of the output holds the target's prior value, whatever the
  source supplies. The docstring's type 0 result is of that kind; the call returns no
  result, it raises \<^verbatim>\<open>NameError\<close>.
\<close>

theorem scd_merge_type0_example_raises:
  "keys_in_both docs_df_source type0_df_target ''customer''
     = [StrC ''C00000001'', StrC ''C00000002'']
   \<and> type0_retained docs_df_source type0_df_target type0_df_merged
        ''customer'' ''original_credit_score''
   \<and> scd_merge scd_merge_globals python_builtins
        (DataFrameV docs_df_source) (DataFrameV type0_df_target) table_params
       = Inl (Raised ''NameError'' ''df_merged'')"
proof -
  have "keys_in_both docs_df_source type0_df_target ''customer''
          = [StrC ''C00000001'', StrC ''C00000002'']"
    by code_simp
  moreover have "type0_retained docs_df_source type0_df_target type0_df_merged
                   ''customer'' ''original_credit_score''"
    by code_simp
  ultimately show ?thesis
    by (simp add: scd_merge_module_raises)
qed

text \<open>
  C5 (the code does not do this). The claim: a type 1 column of the output holds the
  source's value at every key the source has, and the target's value at the others. The
  docstring's type 1 result is of that kind; the call raises \<^verbatim>\<open>NameError\<close> instead of
  returning it.
\<close>

theorem scd_merge_type1_example_raises:
  "type1_overwritten docs_df_source type1_df_target type1_df_merged
     ''customer'' ''credit_score'' ''current_credit_score''
   \<and> value_of type1_df_merged ''customer'' (StrC ''C00000001'') ''current_credit_score''
       = Some (IntC 730)
   \<and> scd_merge scd_merge_globals python_builtins
        (DataFrameV docs_df_source) (DataFrameV type1_df_target) table_params
       = Inl (Raised ''NameError'' ''df_merged'')"
proof -
  have "type1_overwritten docs_df_source type1_df_target type1_df_merged
          ''customer'' ''credit_score'' ''current_credit_score''"
    by code_simp
  moreover have "value_of type1_df_merged ''customer'' (StrC ''C00000001'')
                   ''current_credit_score'' = Some (IntC 730)"
    by code_simp
  ultimately show ?thesis
    by (simp add: scd_merge_module_raises)
qed

text \<open>
  C6 (corrected). The claim: the merge raises \<^verbatim>\<open>DuplicateSourceKey\<close> exactly when the
  source batch has more than one row for some durable key. The batch below has two rows
  for C00000001, and the call does not raise that error.
\<close>

theorem scd_merge_duplicate_key_not_reported:
  "has_duplicate_key dup_df_source ''customer''
   \<and> \<not> raises ''DuplicateSourceKey''
        (scd_merge scd_merge_globals python_builtins
           (DataFrameV dup_df_source) (DataFrameV type1_df_target) (DictV []))"
proof -
  have "has_duplicate_key dup_df_source ''customer''"
    by code_simp
  then show ?thesis
    by (simp add: scd_merge_never_duplicate_key)
qed

text \<open>
  C6 as amended: \<^verbatim>\<open>scd_merge\<close> checks no key cardinality. Whatever the source batch, the
  target and the parameters, and whatever the module's globals and the builtins hold,
  the call does not raise \<^verbatim>\<open>DuplicateSourceKey\<close>: not for a batch with one row per
  durable key, and not for a batch with several.
\<close>

theorem scd_merge_raises_no_duplicate_key:
  "\<not> raises ''DuplicateSourceKey''
       (scd_merge globals builtins (DataFrameV df_source) df_target table_params)"
  by (rule scd_merge_never_duplicate_key)

text \<open>
  C7 (the code does not do this). The claim: at a changed key under type 3 the primary
  column takes the source's value, and the alternate column takes the primary's previous
  value when it is null and keeps its value otherwise. In the docstring's type 3 example
  both keys are changed and both alternates are null, and the documented result is of
  that kind; the call raises \<^verbatim>\<open>NameError\<close> instead of returning it.
\<close>

theorem scd_merge_type3_example_raises:
  "changed_keys docs_df_source type3_df_target ''customer'' ''credit_score'' ''credit_score''
     = [StrC ''C00000001'', StrC ''C00000002'']
   \<and> type3_shifted docs_df_source type3_df_target type3_df_merged
        ''customer'' ''credit_score'' ''credit_score'' ''credit_score_alternate''
   \<and> value_of type3_df_merged ''customer'' (StrC ''C00000001'') ''credit_score_alternate''
       = Some (IntC 630)
   \<and> scd_merge scd_merge_globals python_builtins
        (DataFrameV docs_df_source) (DataFrameV type3_df_target) table_params
       = Inl (Raised ''NameError'' ''df_merged'')"
proof -
  have "changed_keys docs_df_source type3_df_target ''customer'' ''credit_score''
          ''credit_score'' = [StrC ''C00000001'', StrC ''C00000002'']"
    by code_simp
  moreover have "type3_shifted docs_df_source type3_df_target type3_df_merged
                   ''customer'' ''credit_score'' ''credit_score'' ''credit_score_alternate''"
    by code_simp
  moreover have "value_of type3_df_merged ''customer'' (StrC ''C00000001'')
                   ''credit_score_alternate'' = Some (IntC 630)"
    by code_simp
  ultimately show ?thesis
    by (simp add: scd_merge_module_raises)
qed

text \<open>
  C8 (the code does not do this). The claim: in a returned snapshot every row of a type 6
  key holds in its \<^verbatim>\<open>_current\<close> column the value of the key's single current row, and
  each row keeps in \<^verbatim>\<open>_historical\<close> the value of its own interval. The docstring's type 6
  result is of that kind; the call raises \<^verbatim>\<open>NameError\<close> instead of returning it.
\<close>

theorem scd_merge_type6_example_raises:
  "type6_shadow_consistent type6_df_merged ''customer'' ''credit_score_current''
   \<and> column_of_key type6_df_merged ''customer'' (StrC ''C00000001'') ''credit_score_current''
       = [Some (IntC 730), Some (IntC 730)]
   \<and> column_of_key type6_df_merged ''customer'' (StrC ''C00000001'')
        ''credit_score_historical''
       = [Some (IntC 630), Some (IntC 730)]
   \<and> column_of_key type6_df_merged ''customer'' (StrC ''C00000002'')
        ''credit_score_historical''
       = [Some (IntC 520), Some (IntC 480)]
   \<and> scd_merge scd_merge_globals python_builtins
        (DataFrameV docs_df_source) (DataFrameV type6_df_target) table_params
       = Inl (Raised ''NameError'' ''df_merged'')"
proof -
  have "type6_shadow_consistent type6_df_merged ''customer'' ''credit_score_current''"
    by code_simp
  moreover have "column_of_key type6_df_merged ''customer'' (StrC ''C00000001'')
                   ''credit_score_current'' = [Some (IntC 730), Some (IntC 730)]"
    by code_simp
  moreover have "column_of_key type6_df_merged ''customer'' (StrC ''C00000001'')
                   ''credit_score_historical'' = [Some (IntC 630), Some (IntC 730)]"
    by code_simp
  moreover have "column_of_key type6_df_merged ''customer'' (StrC ''C00000002'')
                   ''credit_score_historical'' = [Some (IntC 520), Some (IntC 480)]"
    by code_simp
  ultimately show ?thesis
    by (simp add: scd_merge_module_raises)
qed

lemma add_attr_refused:
  "obj_refuses cls (fn_name func) = Some e \<Longrightarrow> add_attr cls func = Inl e"
  by (simp add: add_attr_def decorator_def setattr_def)

text \<open>
  C9 (corrected). The claim: for every class \<^verbatim>\<open>cls\<close> and function \<^verbatim>\<open>func\<close>,
  \<^verbatim>\<open>add_attr(cls)(func)\<close> returns \<^verbatim>\<open>func\<close> and leaves a wrapper under \<^verbatim>\<open>func.__name__\<close>.
  On a class that refuses the assignment, as \<^verbatim>\<open>int\<close> does, \<^verbatim>\<open>setattr\<close> raises and the
  call returns nothing.
\<close>

theorem add_attr_int_type_raises:
  "add_attr int_type add_column3 = Inl (Raised ''TypeError'' ''add_column3'')"
  by (rule add_attr_refused) (simp add: int_type_def add_column3_def)

text \<open>
  C9 as amended. For every object \<^verbatim>\<open>cls\<close> and function \<^verbatim>\<open>func\<close> such that \<^verbatim>\<open>cls\<close>
  accepts the assignment of the attribute named \<^verbatim>\<open>func.__name__\<close>, \<^verbatim>\<open>add_attr(cls)(func)\<close>
  returns \<^verbatim>\<open>func\<close> itself, and afterwards that attribute of \<^verbatim>\<open>cls\<close> is a wrapper whose
  call, on any arguments, has the outcome of the call of \<^verbatim>\<open>func\<close> on them.
\<close>

theorem add_attr_transparent:
  assumes "obj_refuses cls (fn_name func) = None"
  shows "\<exists>cls'. add_attr cls func = Inr (func, cls')
           \<and> (\<exists>w. obj_attrs cls' (fn_name func) = Some w
                  \<and> fn_name w = fn_name func
                  \<and> (\<forall>args. fn_call w args = fn_call func args))"
  using assms
  by (simp add: add_attr_def decorator_def setattr_def wraps_def wrapper_def)

theorem add_attr_transparent_witness:
  "\<exists>cls'. add_attr custom_function add_column3 = Inr (add_column3, cls')
     \<and> (\<exists>w. obj_attrs cls' ''add_column3'' = Some w
            \<and> fn_name w = ''add_column3''
            \<and> (\<forall>args. fn_call w args = fn_call add_column3 args))"
proof -
  have accepts: "obj_refuses custom_function (fn_name add_column3) = None"
    by (simp add: custom_function_def add_column3_def)
  have name: "fn_name add_column3 = ''add_column3''"
    by (simp add: add_column3_def)
  from add_attr_transparent [OF accepts] show ?thesis
    unfolding name .
qed

lemma df_not_builtin: "python_builtins ''df'' = None"
  by code_simp

lemma property_builtin: "python_builtins ''property'' \<noteq> None"
  by code_simp

lemma lit_col_not_builtin: "python_builtins ''lit'' = None \<and> python_builtins ''col'' = None"
  by code_simp

text \<open>
  C10. In every environment where pyspark can be imported, importing the module raises
  \<^verbatim>\<open>NameError\<close>: the top-level statement \<^verbatim>\<open>df.custom.add_column3()\<close> loads the name
  \<^verbatim>\<open>df\<close>, which nothing binds. The inner functions load \<^verbatim>\<open>lit\<close> and \<^verbatim>\<open>col\<close>, which no
  statement of the module binds and which are no builtins.
\<close>

theorem import_add_attributes_raises:
  assumes "mods ''pyspark.sql.dataframe'' = Some ex1" and "''DataFrame'' \<in> set ex1"
    and "mods ''functools'' = Some ex2" and "''wraps'' \<in> set ex2"
  shows "import_add_attributes mods = Inl (Raised ''NameError'' ''df'')
         \<and> ''lit'' \<in> set (loaded_names custom_def_stmt)
         \<and> ''col'' \<in> set (loaded_names dataframe_extension_def_stmt)
         \<and> \<not> visible (concat (map bound_names add_attributes_module)) ''lit''
         \<and> \<not> visible (concat (map bound_names add_attributes_module)) ''col''"
proof -
  have run: "import_add_attributes mods = Inl (Raised ''NameError'' ''df'')"
    using assms df_not_builtin property_builtin
    by (simp add: import_add_attributes_def add_attributes_module_def add_attr_def_stmt_def
        custom_def_stmt_def eval_names_def visible_def)
  have lit: "''lit'' \<in> set (loaded_names custom_def_stmt)"
    by (simp add: custom_def_stmt_def)
  have col: "''col'' \<in> set (loaded_names dataframe_extension_def_stmt)"
    by (simp add: dataframe_extension_def_stmt_def)
  have nolit: "\<not> visible (concat (map bound_names add_attributes_module)) ''lit''"
    using lit_col_not_builtin
    by (simp add: visible_def add_attributes_module_def add_attr_def_stmt_def
        custom_def_stmt_def dataframe_extension_def_stmt_def)
  have nocol: "\<not> visible (concat (map bound_names add_attributes_module)) ''col''"
    using lit_col_not_builtin
    by (simp add: visible_def add_attributes_module_def add_attr_def_stmt_def
        custom_def_stmt_def dataframe_extension_def_stmt_def)
  from run lit col nolit nocol show ?thesis by simp
qed

theorem import_add_attributes_raises_witness:
  "import_add_attributes pyspark_modules = Inl (Raised ''NameError'' ''df'')"
  using import_add_attributes_raises
    [of pyspark_modules "[''DataFrame'']" "[''wraps'', ''partial'', ''reduce'', ''lru_cache'']"]
  by (simp add: pyspark_modules_def)

end
